theory Spec2Isabelle
  imports Complex_Main "HOL-Library.Sublist" "HOL-Library.Char_ord" "HOL-Library.List_Lexorder"
begin

section \<open>The credit-factor scorer of \<^verbatim>\<open>xai_engine/get_analysis.py\<close>\<close>

text \<open>
  The development embeds the three functions of \<^verbatim>\<open>get_analysis.py\<close>:
  \<^verbatim>\<open>load_plaid_data\<close>, \<^verbatim>\<open>calculate_factors_from_plaid\<close> and \<^verbatim>\<open>main\<close>.

  Conventions of the embedding.
  \<^item> A JSON object read with \<^verbatim>\<open>d.get(key, default)\<close> is a record whose fields are
    options: \<open>None\<close> is an absent key. Fields that are present carry the type the data
    model gives them (a number or a string); a field holding JSON \<^verbatim>\<open>null\<close> or a value
    of another type is outside the model.
  \<^item> A JSON number is the rational it denotes, and Python's arithmetic on numbers is
    exact rational arithmetic. Python divides and multiplies in binary64, so the two can
    differ in the last place (\<^verbatim>\<open>29/100*100\<close> is \<^verbatim>\<open>28.999999999999996\<close> in Python);
    every closed theorem below is stated at inputs where the binary64 computation is exact.
  \<^item> \<^verbatim>\<open>int(x)\<close> truncates towards zero.
  \<^item> An exception is a value \<open>Inl e\<close> of the result type \<open>error + 'a\<close>.
\<close>

subsection \<open>Input data\<close>

record balances =
  current :: "rat option"
  limit :: "rat option"

record account =
  balances :: "balances option"
  subtype :: "string option"
  type :: "string option"

record transaction =
  amount :: "rat option"
  date :: "string option"
  category :: "string option"

text \<open>
  The parsed document. \<open>other_keys\<close> lists the keys of the object besides
  \<^verbatim>\<open>accounts\<close> and \<^verbatim>\<open>transactions\<close>; the scorer never reads them, but they make the
  dictionary non-empty.
\<close>

record plaid_data =
  accounts :: "account list option"
  transactions :: "transaction list option"
  other_keys :: "string list"

subsection \<open>Results\<close>

record factor =
  name :: string
  impact :: int
  percentage :: int
  positive :: bool
  explanation :: string

record score_result =
  score :: int
  factors :: "factor list"
  ficoEquivalent :: int
  vcCount :: int
  onChainScore :: int

datatype error = ValueError | AttributeError

subsection \<open>Python primitives\<close>

definition py_int :: "rat \<Rightarrow> int" where
  "py_int x = (if 0 \<le> x then \<lfloor>x\<rfloor> else \<lceil>x\<rceil>)"

fun str_nat :: "nat \<Rightarrow> string" where
  "str_nat n =
     (if n < 10 then [char_of (48 + n)]
      else str_nat (n div 10) @ [char_of (48 + n mod 10)])"

declare str_nat.simps [simp del]

definition str_int :: "int \<Rightarrow> string" where
  "str_int i = (if i < 0 then CHR ''-'' # str_nat (nat (- i)) else str_nat (nat i))"

definition lower_char :: "char \<Rightarrow> char" where
  "lower_char c =
     (let n = (of_char c :: nat) in if 65 \<le> n \<and> n \<le> 90 then char_of (n + 32) else c)"

definition lower :: "string \<Rightarrow> string" where
  "lower s = map lower_char s"

fun contains :: "string \<Rightarrow> string \<Rightarrow> bool" where
  "contains sub [] = (sub = [])"
| "contains sub (c # cs) = (prefix sub (c # cs) \<or> contains sub cs)"

definition py_min :: "string list \<Rightarrow> error + string" where
  "py_min xs = (case xs of [] \<Rightarrow> Inl ValueError | y # ys \<Rightarrow> Inr (fold min ys y))"

subsection \<open>\<^verbatim>\<open>calculate_factors_from_plaid\<close>, line by line\<close>

definition get_accounts :: "plaid_data \<Rightarrow> account list" where
  "get_accounts d = (case accounts d of None \<Rightarrow> [] | Some xs \<Rightarrow> xs)"

definition get_transactions :: "plaid_data \<Rightarrow> transaction list" where
  "get_transactions d = (case transactions d of None \<Rightarrow> [] | Some xs \<Rightarrow> xs)"

definition get_current :: "account \<Rightarrow> rat" where
  "get_current acc =
     (case balances acc of None \<Rightarrow> 0
      | Some b \<Rightarrow> (case current b of None \<Rightarrow> 0 | Some c \<Rightarrow> c))"

definition get_limit :: "account \<Rightarrow> rat" where
  "get_limit acc =
     (case balances acc of None \<Rightarrow> 0
      | Some b \<Rightarrow> (case limit b of None \<Rightarrow> 0 | Some c \<Rightarrow> c))"

definition get_amount :: "transaction \<Rightarrow> rat" where
  "get_amount tx = (case amount tx of None \<Rightarrow> 0 | Some a \<Rightarrow> a)"

definition total_balance :: "plaid_data \<Rightarrow> rat" where
  "total_balance d = sum_list (map get_current (get_accounts d))"

definition credit_accounts :: "plaid_data \<Rightarrow> account list" where
  "credit_accounts d = filter (\<lambda>acc. subtype acc = Some ''credit card'') (get_accounts d)"

definition total_credit_limit :: "plaid_data \<Rightarrow> rat" where
  "total_credit_limit d = sum_list (map get_limit (credit_accounts d))"

definition total_credit_used :: "plaid_data \<Rightarrow> rat" where
  "total_credit_used d =
     sum_list (map (\<lambda>acc. \<bar>get_current acc\<bar>)
       (filter (\<lambda>acc. get_current acc < 0) (credit_accounts d)))"

definition recent_txs :: "plaid_data \<Rightarrow> transaction list" where
  "recent_txs d = filter (\<lambda>tx. get_amount tx \<ge> 0) (get_transactions d)"

definition payment_history_score :: "plaid_data \<Rightarrow> rat" where
  "payment_history_score d =
     (if get_transactions d \<noteq> []
      then min 100 (of_nat (length (recent_txs d))
                     / of_nat (max 1 (length (get_transactions d))) * 100)
      else 50)"

definition payment_history_impact :: "plaid_data \<Rightarrow> int" where
  "payment_history_impact d = py_int (payment_history_score d / 100 * 35)"

definition utilization :: "plaid_data \<Rightarrow> rat" where
  "utilization d =
     (if total_credit_limit d > 0
      then total_credit_used d / total_credit_limit d * 100
      else 0)"

text \<open>The \<^verbatim>\<open>if/elif\<close> chain of lines 69-80: \<open>(utilization_score, utilization_impact)\<close>.\<close>

definition utilization_band :: "rat \<Rightarrow> int \<times> int" where
  "utilization_band u =
     (if u < 30 then (100, 30)
      else if u < 50 then (80, 24)
      else if u < 70 then (60, 18)
      else (40, 12))"


definition utilization_impact :: "plaid_data \<Rightarrow> int" where
  "utilization_impact d = snd (utilization_band (utilization d))"

definition account_kind :: "account \<Rightarrow> string" where
  "account_kind acc =
     (case subtype acc of Some s \<Rightarrow> s
      | None \<Rightarrow> (case type acc of Some t \<Rightarrow> t | None \<Rightarrow> ''''))"

definition account_types :: "plaid_data \<Rightarrow> string set" where
  "account_types d = set (map account_kind (get_accounts d))"

definition diversity_count :: "plaid_data \<Rightarrow> nat" where
  "diversity_count d = card (account_types d)"

text \<open>The \<^verbatim>\<open>if/elif\<close> chain of lines 85-96: \<open>(diversity_score, diversity_impact)\<close>.\<close>

definition diversity_band :: "nat \<Rightarrow> int \<times> int" where
  "diversity_band n =
     (if n \<ge> 4 then (100, 10)
      else if n = 3 then (80, 8)
      else if n = 2 then (60, 6)
      else (40, 4))"

definition diversity_score :: "plaid_data \<Rightarrow> int" where
  "diversity_score d = fst (diversity_band (diversity_count d))"

definition diversity_impact :: "plaid_data \<Rightarrow> int" where
  "diversity_impact d = snd (diversity_band (diversity_count d))"

definition get_category :: "transaction \<Rightarrow> string" where
  "get_category tx = (case category tx of None \<Rightarrow> '''' | Some c \<Rightarrow> c)"

definition income_txs :: "plaid_data \<Rightarrow> transaction list" where
  "income_txs d =
     filter (\<lambda>tx. contains ''income'' (lower (get_category tx)) \<or> get_amount tx > 1000)
       (get_transactions d)"

definition income_stability_score :: "plaid_data \<Rightarrow> int" where
  "income_stability_score d = (if length (income_txs d) > 0 then 70 else 50)"

definition income_stability_impact :: "plaid_data \<Rightarrow> int" where
  "income_stability_impact d = py_int (of_int (income_stability_score d) / 100 * 15)"

text \<open>
  Line 106: the dates that are present and non-empty, and their minimum.
  \<^verbatim>\<open>min\<close> of an empty sequence raises \<^verbatim>\<open>ValueError\<close>.
\<close>

definition dated :: "plaid_data \<Rightarrow> string list" where
  "dated d =
     map (\<lambda>tx. case date tx of None \<Rightarrow> '''' | Some s \<Rightarrow> s)
       (filter (\<lambda>tx. case date tx of None \<Rightarrow> False | Some s \<Rightarrow> s \<noteq> '''')
          (get_transactions d))"

text \<open>Lines 105-111: \<open>(account_age_score, account_age_impact)\<close>.\<close>

definition account_age :: "plaid_data \<Rightarrow> error + int \<times> int" where
  "account_age d =
     (if get_transactions d \<noteq> []
      then (case py_min (dated d) of
              Inl e \<Rightarrow> Inl e
            | Inr oldest_tx \<Rightarrow> Inr (70, 7))
      else Inr (50, 5))"

text \<open>Lines 113-162: the overall score, the five factors and the returned dictionary.\<close>

definition payment_history_factor :: "plaid_data \<Rightarrow> factor" where
  "payment_history_factor d =
     \<lparr>name = ''Payment History'',
      impact = payment_history_impact d,
      percentage = py_int (payment_history_score d),
      positive = (payment_history_impact d \<ge> 30),
      explanation =
        ''You have '' @ str_nat (length (recent_txs d)) @ '' positive transactions. '' @
        (if payment_history_score d \<ge> 90 then ''Excellent consistency!''
         else ''Good payment history.'')\<rparr>"

definition utilization_factor :: "plaid_data \<Rightarrow> factor" where
  "utilization_factor d =
     \<lparr>name = ''Credit Utilization'',
      impact = utilization_impact d - 30,
      percentage = (if utilization d > 0 then py_int (utilization d) else 0),
      positive = (utilization d < 30),
      explanation =
        ''Using '' @ str_int (py_int (utilization d)) @ ''% of available credit. '' @
        (if utilization d < 30 then ''Excellent!''
         else if utilization d < 70 then ''Reduce to 30% for optimal score.''
         else ''High utilization is hurting your score.'')\<rparr>"

definition diversity_factor :: "plaid_data \<Rightarrow> factor" where
  "diversity_factor d =
     \<lparr>name = ''Account Diversity'',
      impact = diversity_impact d - 10,
      percentage = diversity_score d,
      positive = (diversity_count d \<ge> 3),
      explanation =
        str_nat (diversity_count d) @ '' account type'' @
        (if diversity_count d \<noteq> 1 then ''s'' else []) @ '' active. '' @
        (if diversity_count d \<ge> 4 then ''Excellent diversity!''
         else if diversity_count d < 3
           then ''Adding more account types would optimize this factor.''
         else ''Good account mix.'')\<rparr>"

definition income_stability_factor :: "plaid_data \<Rightarrow> factor" where
  "income_stability_factor d =
     \<lparr>name = ''Income Stability'',
      impact = income_stability_impact d - 15,
      percentage = income_stability_score d,
      positive = (income_stability_score d \<ge> 70),
      explanation =
        (if income_stability_score d \<ge> 70 then ''Consistent income detected.''
         else ''Income varies month-to-month. Consistent income improves creditworthiness.'')\<rparr>"

definition account_age_factor :: "int \<Rightarrow> int \<Rightarrow> factor" where
  "account_age_factor account_age_score account_age_impact =
     \<lparr>name = ''Account Age'',
      impact = account_age_impact - 10,
      percentage = account_age_score,
      positive = (account_age_score \<ge> 70),
      explanation =
        (if account_age_score \<ge> 70 then ''Good credit history length.''
         else ''Newer accounts. Building credit history takes time.'')\<rparr>"

definition calculate_factors_from_plaid :: "plaid_data \<Rightarrow> error + score_result" where
  "calculate_factors_from_plaid d =
     (case account_age d of
        Inl e \<Rightarrow> Inl e
      | Inr (account_age_score, account_age_impact) \<Rightarrow>
          (let overall_score =
                 payment_history_impact d + utilization_impact d + diversity_impact d
                 + income_stability_impact d + account_age_impact;
               overall_score = overall_score * 10
           in Inr \<lparr>score = overall_score,
                   factors =
                     [payment_history_factor d, utilization_factor d, diversity_factor d,
                      income_stability_factor d,
                      account_age_factor account_age_score account_age_impact],
                   ficoEquivalent = py_int (of_int overall_score * (85 / 100)),
                   vcCount = 0,
                   onChainScore = py_int (of_int overall_score / 10)\<rparr>))"

subsection \<open>\<^verbatim>\<open>load_plaid_data\<close> and \<^verbatim>\<open>main\<close>\<close>

text \<open>
  What \<^verbatim>\<open>json.load\<close> can hand to \<^verbatim>\<open>main\<close>: any JSON value. JSON \<^verbatim>\<open>null\<close> is Python's
  \<^verbatim>\<open>None\<close>, the value \<^verbatim>\<open>load_plaid_data\<close> also returns when nothing could be loaded.
\<close>

datatype py_value =
    PyNone
  | PyBool bool
  | PyNum rat
  | PyStr string
  | PyList "py_value list"
  | PyDict plaid_data

text \<open>Python's truth value of an object, as \<^verbatim>\<open>if not plaid_data\<close> tests it.\<close>

fun truthy :: "py_value \<Rightarrow> bool" where
  "truthy PyNone = False"
| "truthy (PyBool b) = b"
| "truthy (PyNum x) = (x \<noteq> 0)"
| "truthy (PyStr s) = (s \<noteq> [])"
| "truthy (PyList xs) = (xs \<noteq> [])"
| "truthy (PyDict d) = (accounts d \<noteq> None \<or> transactions d \<noteq> None \<or> other_keys d \<noteq> [])"

text \<open>
  The world outside the process: which paths exist, what opening and parsing a file gives
  (\<open>None\<close> when \<^verbatim>\<open>open\<close> or \<^verbatim>\<open>json.load\<close> raises), the directory above the script's,
  the working directory, and the text \<^verbatim>\<open>str(e)\<close> of an exception.
\<close>

record env =
  path_exists :: "string \<Rightarrow> bool"
  json_load :: "string \<Rightarrow> py_value option"
  project_root :: string
  getcwd :: string
  str_exc :: "error \<Rightarrow> string"

definition path_join :: "string \<Rightarrow> string \<Rightarrow> string \<Rightarrow> string" where
  "path_join a b c = a @ ''/'' @ b @ ''/'' @ c"

definition open_and_load :: "env \<Rightarrow> string \<Rightarrow> py_value" where
  "open_and_load ev p = (case json_load ev p of None \<Rightarrow> PyNone | Some v \<Rightarrow> v)"

definition load_plaid_data :: "env \<Rightarrow> string option \<Rightarrow> py_value" where
  "load_plaid_data ev plaid_path =
     (case (case plaid_path of None \<Rightarrow> None | Some p \<Rightarrow> if p \<noteq> [] then Some p else None) of
        Some p \<Rightarrow> (if path_exists ev p then open_and_load ev p else PyNone)
      | None \<Rightarrow>
          (let p1 = path_join (project_root ev) ''plaid_node'' ''plaid_user_data.json'';
               p2 = (if \<not> path_exists ev p1
                     then path_join (getcwd ev) ''plaid_node'' ''plaid_user_data.json''
                     else p1)
           in if \<not> path_exists ev p2
              then (let p3 = ''../plaid_node/plaid_user_data.json''
                    in if \<not> path_exists ev p3 then PyNone else open_and_load ev p3)
              else open_and_load ev p2))"

text \<open>
  What \<^verbatim>\<open>main\<close> prints on standard output, and the literal dictionaries of
  lines 176-218 and 236-251.
\<close>

datatype printed = Analysis score_result | ErrorResponse string score_result

definition default_analysis :: score_result where
  "default_analysis =
     \<lparr>score = 674,
      factors =
        [\<lparr>name = ''Payment History'', impact = 35, percentage = 92, positive = True,
          explanation = ''Connect your bank account via Plaid to see your real payment history analysis powered by XAI.''\<rparr>,
         \<lparr>name = ''Credit Utilization'', impact = - 20, percentage = 65, positive = False,
          explanation = ''Connect your bank account via Plaid to see your real credit utilization analysis powered by XAI.''\<rparr>,
         \<lparr>name = ''Account Diversity'', impact = 10, percentage = 60, positive = True,
          explanation = ''Connect your bank account via Plaid to see your account diversity analysis powered by XAI.''\<rparr>,
         \<lparr>name = ''Income Stability'', impact = - 10, percentage = 55, positive = False,
          explanation = ''Connect your bank account via Plaid to see your income stability analysis powered by XAI.''\<rparr>,
         \<lparr>name = ''Account Age'', impact = 15, percentage = 70, positive = True,
          explanation = ''Connect your bank account via Plaid to see your account age analysis powered by XAI.''\<rparr>],
      ficoEquivalent = 720,
      vcCount = 0,
      onChainScore = 68\<rparr>"

definition error_response :: "string \<Rightarrow> printed" where
  "error_response msg =
     ErrorResponse msg
       \<lparr>score = 674,
        factors =
          [\<lparr>name = ''Payment History'', impact = 35, percentage = 92, positive = True,
            explanation = ''XAI analysis error: '' @ msg @ ''. Please check server logs.''\<rparr>],
        ficoEquivalent = 720,
        vcCount = 0,
        onChainScore = 68\<rparr>"

text \<open>
  The call of line 223 on whatever was loaded: \<^verbatim>\<open>plaid_data.get\<close> exists on a dictionary
  only, and raises \<^verbatim>\<open>AttributeError\<close> on every other value.
\<close>

fun call_calculate :: "py_value \<Rightarrow> error + score_result" where
  "call_calculate (PyDict d) = calculate_factors_from_plaid d"
| "call_calculate v = Inl AttributeError"

text \<open>
  \<^verbatim>\<open>main\<close>: the value printed on standard output and the exit status (\<open>0\<close> when
  \<^verbatim>\<open>main\<close> returns, \<open>1\<close> from \<^verbatim>\<open>sys.exit(1)\<close>). \<open>argv\<close> is \<^verbatim>\<open>sys.argv\<close>. The lines
  written to standard error are not part of the model.
\<close>

definition argv_path :: "string list \<Rightarrow> string option" where
  "argv_path argv = (if length argv > 1 then Some (argv ! 1) else None)"

definition main :: "env \<Rightarrow> string list \<Rightarrow> printed \<times> int" where
  "main ev argv =
     (let plaid_path = argv_path argv;
          plaid_data = load_plaid_data ev plaid_path
      in if \<not> truthy plaid_data then (Analysis default_analysis, 0)
         else (case call_calculate plaid_data of
                 Inr analysis \<Rightarrow> (Analysis analysis, 0)
               | Inl e \<Rightarrow> (error_response (str_exc ev e), 1)))"

subsection \<open>Concrete inputs\<close>

text \<open>No accounts and no transactions: \<^verbatim>\<open>{"accounts": [], "transactions": []}\<close>.\<close>

definition empty_input :: plaid_data where
  "empty_input = \<lparr>accounts = Some [], transactions = Some [], other_keys = []\<rparr>"

definition empty_result :: score_result where
  "empty_result =
     \<lparr>score = 630,
      factors =
        [\<lparr>name = ''Payment History'', impact = 17, percentage = 50, positive = False,
          explanation = ''You have 0 positive transactions. Good payment history.''\<rparr>,
         \<lparr>name = ''Credit Utilization'', impact = 0, percentage = 0, positive = True,
          explanation = ''Using 0% of available credit. Excellent!''\<rparr>,
         \<lparr>name = ''Account Diversity'', impact = - 6, percentage = 40, positive = False,
          explanation = ''0 account types active. Adding more account types would optimize this factor.''\<rparr>,
         \<lparr>name = ''Income Stability'', impact = - 8, percentage = 50, positive = False,
          explanation = ''Income varies month-to-month. Consistent income improves creditworthiness.''\<rparr>,
         \<lparr>name = ''Account Age'', impact = - 5, percentage = 50, positive = False,
          explanation = ''Newer accounts. Building credit history takes time.''\<rparr>],
      ficoEquivalent = 535,
      vcCount = 0,
      onChainScore = 63\<rparr>"

text \<open>The empty JSON object \<^verbatim>\<open>{}\<close>.\<close>

definition empty_object :: plaid_data where
  "empty_object = \<lparr>accounts = None, transactions = None, other_keys = []\<rparr>"

text \<open>
  The end-to-end example of the specification: one credit card with balance \<open>-300\<close> and
  limit \<open>1000\<close>, and the transactions \<^verbatim>\<open>[{amount: 50}, {amount: -20}]\<close>, which carry
  no date.
\<close>

definition spec_example :: plaid_data where
  "spec_example =
     \<lparr>accounts = Some [\<lparr>balances = Some \<lparr>current = Some (- 300), limit = Some 1000\<rparr>,
                         subtype = Some ''credit card'', type = None\<rparr>],
      transactions = Some [\<lparr>amount = Some 50, date = None, category = None\<rparr>,
                           \<lparr>amount = Some (- 20), date = None, category = None\<rparr>],
      other_keys = []\<rparr>"



text \<open>A single transaction without a date, and no accounts.\<close>

definition undated_input :: plaid_data where
  "undated_input =
     \<lparr>accounts = Some [],
      transactions = Some [\<lparr>amount = Some 50, date = None, category = None\<rparr>],
      other_keys = []\<rparr>"



text \<open>
  Environments for \<^verbatim>\<open>main\<close>: one where no file exists, and one where the file
  \<^verbatim>\<open>data.json\<close> exists and parses to a given value.
\<close>

definition no_files :: env where
  "no_files =
     \<lparr>path_exists = (\<lambda>p. False),
      json_load = (\<lambda>p. None),
      project_root = ''/app'',
      getcwd = ''/app/xai_engine'',
      str_exc = (\<lambda>e. ''min() arg is an empty sequence'')\<rparr>"

definition one_file :: "py_value \<Rightarrow> env" where
  "one_file v =
     \<lparr>path_exists = (\<lambda>p. p = ''data.json''),
      json_load = (\<lambda>p. if p = ''data.json'' then Some v else None),
      project_root = ''/app'',
      getcwd = ''/app/xai_engine'',
      str_exc = (\<lambda>e. ''min() arg is an empty sequence'')\<rparr>"

section \<open>Properties\<close>

subsection \<open>Ranges of the intermediate values\<close>


lemma recent_le: "length (recent_txs d) \<le> length (get_transactions d)"
  by (simp add: recent_txs_def)









lemma py_min_Inl: "py_min xs = Inl e \<longleftrightarrow> xs = [] \<and> e = ValueError"
  by (auto simp: py_min_def split: list.splits)


lemma account_age_Inl:
  "account_age d = Inl e \<longleftrightarrow> get_transactions d \<noteq> [] \<and> dated d = [] \<and> e = ValueError"
  by (auto simp: account_age_def py_min_def split: list.splits)


lemma calculate_Inl:
  "calculate_factors_from_plaid d = Inl e \<longleftrightarrow> account_age d = Inl e"
  by (auto simp: calculate_factors_from_plaid_def Let_def split: sum.splits prod.splits)

subsection \<open>The concrete inputs evaluated\<close>

lemma empty_input_result: "calculate_factors_from_plaid empty_input = Inr empty_result"
  by code_simp



subsection \<open>When the scorer returns and when it raises\<close>

lemma dated_empty_iff:
  "dated d = [] \<longleftrightarrow>
     (\<forall>tx \<in> set (get_transactions d). date tx = None \<or> date tx = Some [])"
proof -
  have "(case date tx of None \<Rightarrow> False | Some s \<Rightarrow> s \<noteq> []) \<longleftrightarrow>
        \<not> (date tx = None \<or> date tx = Some [])" for tx :: transaction
    by (cases "date tx") simp_all
  then show ?thesis by (simp add: dated_def filter_empty_conv)
qed

lemma calculate_raises_iff:
  "calculate_factors_from_plaid d = Inl e \<longleftrightarrow>
     e = ValueError \<and> get_transactions d \<noteq> [] \<and>
     (\<forall>tx \<in> set (get_transactions d). date tx = None \<or> date tx = Some [])"
  by (auto simp: calculate_Inl account_age_Inl dated_empty_iff)

lemma calculate_returns_iff:
  "(\<exists>r. calculate_factors_from_plaid d = Inr r) \<longleftrightarrow>
     get_transactions d = [] \<or>
     (\<exists>tx \<in> set (get_transactions d). date tx \<noteq> None \<and> date tx \<noteq> Some [])"
proof (cases "calculate_factors_from_plaid d")
  case (Inl e)
  then show ?thesis using calculate_raises_iff [of d e] by auto
next
  case (Inr r)
  have "\<not> (get_transactions d \<noteq> [] \<and>
            (\<forall>tx \<in> set (get_transactions d). date tx = None \<or> date tx = Some []))"
  proof
    assume "get_transactions d \<noteq> [] \<and>
            (\<forall>tx \<in> set (get_transactions d). date tx = None \<or> date tx = Some [])"
    then have "calculate_factors_from_plaid d = Inl ValueError"
      using calculate_raises_iff [of d ValueError] by simp
    with Inr show False by simp
  qed
  with Inr show ?thesis by auto
qed

lemma empty_input_defaults:
  "payment_history_score empty_input = 50 \<and> utilization empty_input = 0 \<and>
   diversity_count empty_input = 0"
  by (simp add: empty_input_def payment_history_score_def get_transactions_def
      utilization_def total_credit_limit_def credit_accounts_def get_accounts_def
      diversity_count_def account_types_def)

text \<open>
  Claim C3 (totality). The claim says that the scorer returns a result for every input
  and never raises. On the input with no accounts and the single transaction
  \<^verbatim>\<open>{amount: 50}\<close> the scorer raises \<^verbatim>\<open>ValueError\<close>: the transaction list is not empty,
  no transaction has a date, and line 106 takes \<^verbatim>\<open>min\<close> of the empty sequence of dates.
\<close>

theorem undated_input_raises:
  "calculate_factors_from_plaid undated_input = Inl ValueError"
  by code_simp

text \<open>
  Claim C4 (the end-to-end example). On the example's input the intermediate values are
  the ones the claim lists: credit used \<open>300\<close>, utilization \<open>30\<close> in the band
  \<open>(80, 24)\<close> with displayed impact \<open>-6\<close>, payment history score \<open>50\<close> with impact
  \<open>17\<close>. The scorer nevertheless returns no factor list and no score: its transactions
  carry no date, and it raises \<^verbatim>\<open>ValueError\<close> at line 106.
\<close>

theorem spec_example_raises:
  "calculate_factors_from_plaid spec_example = Inl ValueError \<and>
   total_credit_used spec_example = 300 \<and>
   utilization spec_example = 30 \<and>
   utilization_band (utilization spec_example) = (80, 24) \<and>
   impact (utilization_factor spec_example) = - 6 \<and>
   payment_history_score spec_example = 50 \<and>
   payment_history_impact spec_example = 17"
  by code_simp












subsection \<open>\<^verbatim>\<open>main\<close>\<close>

lemma load_missing_argument_file:
  "p \<noteq> [] \<Longrightarrow> \<not> path_exists ev p \<Longrightarrow> load_plaid_data ev (Some p) = PyNone"
  by (simp add: load_plaid_data_def)

lemma load_unreadable_argument_file:
  "p \<noteq> [] \<Longrightarrow> path_exists ev p \<Longrightarrow> json_load ev p = None \<Longrightarrow>
   load_plaid_data ev (Some p) = PyNone"
  by (simp add: load_plaid_data_def open_and_load_def)

lemma load_no_default_file:
  "\<not> path_exists ev (path_join (project_root ev) ''plaid_node'' ''plaid_user_data.json'') \<Longrightarrow>
   \<not> path_exists ev (path_join (getcwd ev) ''plaid_node'' ''plaid_user_data.json'') \<Longrightarrow>
   \<not> path_exists ev ''../plaid_node/plaid_user_data.json'' \<Longrightarrow>
   load_plaid_data ev None = PyNone"
  by (simp add: load_plaid_data_def Let_def)

lemma load_no_files: "load_plaid_data no_files p = PyNone"
  by (simp add: load_plaid_data_def no_files_def Let_def split: option.splits)

lemma load_one_file:
  "load_plaid_data (one_file v) (argv_path [''get_analysis.py'', ''data.json'']) = v"
  by (simp add: load_plaid_data_def one_file_def argv_path_def open_and_load_def)

text \<open>
  Claim C6 (fallback). When \<^verbatim>\<open>load_plaid_data\<close> returns \<^verbatim>\<open>None\<close>, as it does for a
  missing file and for a file that cannot be opened or parsed, \<^verbatim>\<open>main\<close> prints the
  literal default analysis, with score \<open>674\<close>, the five canned factors,
  \<open>ficoEquivalent\<close> \<open>720\<close> and \<open>onChainScore\<close> \<open>68\<close>, and the exit status is \<open>0\<close>.
\<close>

theorem fallback_default:
  assumes "load_plaid_data ev (argv_path argv) = PyNone"
  shows "main ev argv = (Analysis default_analysis, 0) \<and>
         score default_analysis = 674 \<and>
         map name (factors default_analysis) =
           [''Payment History'', ''Credit Utilization'', ''Account Diversity'',
            ''Income Stability'', ''Account Age''] \<and>
         map impact (factors default_analysis) = [35, - 20, 10, - 10, 15] \<and>
         map percentage (factors default_analysis) = [92, 65, 60, 55, 70] \<and>
         ficoEquivalent default_analysis = 720 \<and>
         onChainScore default_analysis = 68"
  using assms by (simp add: main_def Let_def default_analysis_def)

theorem fallback_default_witness:
  "load_plaid_data no_files (argv_path [''get_analysis.py'']) = PyNone \<and>
   main no_files [''get_analysis.py''] = (Analysis default_analysis, 0) \<and>
   score default_analysis = 674 \<and>
   ficoEquivalent default_analysis = 720 \<and>
   onChainScore default_analysis = 68"
  using load_no_files [of "argv_path [''get_analysis.py'']"]
    fallback_default [OF load_no_files, of "[''get_analysis.py'']"]
  by simp

text \<open>
  Claim C7 (errors). When the loaded value is truthy and scoring it raises an exception
  \<open>e\<close>, \<^verbatim>\<open>main\<close> prints the error response: the message \<^verbatim>\<open>str(e)\<close> in the field
  \<^verbatim>\<open>error\<close>, score \<open>674\<close>, \<open>ficoEquivalent\<close> \<open>720\<close>, \<open>onChainScore\<close> \<open>68\<close> and one
  factor whose explanation names the message; the exit status is \<open>1\<close>. The exit status
  is non-zero in exactly this case.
\<close>

theorem scoring_exception_reported:
  assumes "v = load_plaid_data ev (argv_path argv)"
  shows "(truthy v \<and> call_calculate v = Inl e \<longrightarrow>
            main ev argv =
              (ErrorResponse (str_exc ev e)
                 \<lparr>score = 674,
                  factors =
                    [\<lparr>name = ''Payment History'', impact = 35, percentage = 92,
                      positive = True,
                      explanation = ''XAI analysis error: '' @ str_exc ev e
                                    @ ''. Please check server logs.''\<rparr>],
                  ficoEquivalent = 720,
                  vcCount = 0,
                  onChainScore = 68\<rparr>, 1)) \<and>
         (snd (main ev argv) \<noteq> 0 \<longleftrightarrow> truthy v \<and> isl (call_calculate v)) \<and>
         score default_analysis = 674 \<and>
         ficoEquivalent default_analysis = 720 \<and>
         onChainScore default_analysis = 68"
  using assms
  by (cases "call_calculate v")
     (simp_all add: main_def Let_def error_response_def default_analysis_def)

theorem scoring_exception_reported_witness:
  "truthy (PyDict spec_example) \<and>
   call_calculate (PyDict spec_example) = Inl ValueError \<and>
   main (one_file (PyDict spec_example)) [''get_analysis.py'', ''data.json''] =
     (ErrorResponse ''min() arg is an empty sequence''
        \<lparr>score = 674,
         factors =
           [\<lparr>name = ''Payment History'', impact = 35, percentage = 92, positive = True,
             explanation = ''XAI analysis error: min() arg is an empty sequence. Please check server logs.''\<rparr>],
         ficoEquivalent = 720,
         vcCount = 0,
         onChainScore = 68\<rparr>, 1) \<and>
   snd (main (one_file (PyDict spec_example)) [''get_analysis.py'', ''data.json'']) \<noteq> 0"
proof -
  have t: "truthy (PyDict spec_example)" by (simp add: spec_example_def)
  have c: "call_calculate (PyDict spec_example) = Inl ValueError"
    using calculate_raises_iff [of spec_example ValueError]
    by (simp add: spec_example_def get_transactions_def)
  have s: "str_exc (one_file (PyDict spec_example)) ValueError = ''min() arg is an empty sequence''"
    by (simp add: one_file_def)
  show ?thesis
    using t c s
      scoring_exception_reported
        [of "PyDict spec_example" "one_file (PyDict spec_example)"
            "[''get_analysis.py'', ''data.json'']" ValueError]
    by (simp add: load_one_file)
qed

text \<open>
  Claim C10 (truthiness). \<^verbatim>\<open>main\<close> tests the loaded value with \<^verbatim>\<open>not\<close>: every falsy
  value gives the default analysis and exit status \<open>0\<close>. The empty object \<^verbatim>\<open>{}\<close> is
  falsy, so it is treated like absent input; \<^verbatim>\<open>{"accounts": [], "transactions": []}\<close> is
  truthy and is scored, with the computed score \<open>630\<close> instead of \<open>674\<close>.
\<close>

theorem falsy_document_is_fallback:
  assumes "v = load_plaid_data ev (argv_path argv)"
  shows "(\<not> truthy v \<longrightarrow> main ev argv = (Analysis default_analysis, 0)) \<and>
         \<not> truthy (PyDict empty_object) \<and>
         truthy (PyDict empty_input) \<and>
         (v = PyDict empty_input \<longrightarrow> main ev argv = (Analysis empty_result, 0)) \<and>
         score empty_result = 630 \<and>
         score default_analysis = 674"
  using assms empty_input_result
  by (simp add: main_def Let_def empty_object_def empty_input_def empty_result_def
      default_analysis_def)

theorem falsy_document_is_fallback_witness:
  "\<not> truthy (PyDict empty_object) \<and>
   main (one_file (PyDict empty_object)) [''get_analysis.py'', ''data.json'']
     = (Analysis default_analysis, 0) \<and>
   truthy (PyDict empty_input) \<and>
   main (one_file (PyDict empty_input)) [''get_analysis.py'', ''data.json'']
     = (Analysis empty_result, 0)"
  using
    falsy_document_is_fallback
      [of "PyDict empty_object" "one_file (PyDict empty_object)"
          "[''get_analysis.py'', ''data.json'']"]
    falsy_document_is_fallback
      [of "PyDict empty_input" "one_file (PyDict empty_input)"
          "[''get_analysis.py'', ''data.json'']"]
  by (simp add: load_one_file)

end
